theory Spec2Isabelle
  imports Complex_Main
begin

section \<open>The accent-recognition store (\<open>AppStore\<close>) as a state machine\<close>

text \<open>
  The program is the MobX store \<open>AppStore\<close> of the richest variant of the UI: capture of
  an audio sample, upload to the prediction service, re-recording of one chunk, and
  synthesis. Its methods are \<open>async\<close>: each one runs synchronously up to an
  \<open>await\<close>, and resumes when the awaited promise settles. The embedding cuts every
  method at its \<open>await\<close>s: one HOL function for the part that runs when the method is
  called, one for the part that runs when the promise settles. Each function takes the
  store and returns the effects it issues on the outside world together with the updated
  store. Between two parts of one method any other handler may run, as in the browser's
  event loop; a trace of events makes the interleaving explicit.

  \<open>handlePlayChunk\<close> only plays audio and writes no field; it is left out. A \<open>File\<close>
  handed to \<open>handleFileUpload\<close> is an object, so its test \<open>if (file)\<close> always passes.
\<close>

subsection \<open>Data\<close>

text \<open>
  A \<open>Blob\<close> is its bytes. An object URL made by \<open>URL.createObjectURL\<close> is represented by
  the blob it refers to. A \<open>MediaStream\<close> is an identifier.
\<close>

type_synonym blob = string
type_synonym object_url = blob
type_synonym media_stream = nat

text \<open>
  \<open>interface ChunkData { start; end; text; prediction }\<close>. The field names carry the
  prefix \<open>c_\<close>, since \<open>end\<close> and \<open>text\<close> are keywords here.
\<close>

record ChunkData =
  c_start :: real
  c_end :: real
  c_text :: string
  c_prediction :: "(string \<times> real) list"

text \<open>
  A value that is meant to be a \<open>ChunkData[]\<close>. At run time it can also be absent
  (\<open>undefined\<close> or \<open>null\<close>), and an element of the array can be absent: a JSON body is
  not checked against the interface, and reading \<open>a[0]\<close> of an empty array gives
  \<open>undefined\<close>. \<open>Absent\<close> stands for the absent value, \<open>Array\<close> for an array, whose
  elements are \<open>Some\<close> chunk or \<open>None\<close> for an absent element. Other values (a number, a
  string, an object that is not a chunk) are not modelled.
\<close>

datatype chunk_seq = Absent | Array "ChunkData option list"

text \<open>
  The parsed body of a prediction response: \<open>{ image_base64, chunks }\<close>. The service
  sends a chunk array; the code reads \<open>data.chunks\<close> unchecked, so \<open>chunks\<close> is any
  \<open>chunk_seq\<close>. \<open>image_base64\<close> is the text that the template literal makes of the field.
\<close>

record prediction_data =
  image_base64 :: string
  chunks :: chunk_seq

text \<open>
  How \<open>await fetch(...)\<close> followed by the \<open>response.ok\<close> test and the reading of the body
  can end: \<open>fetch\<close> rejects, the status is not ok (the code throws), reading the body
  rejects, or the body is there. The store is neither read nor written between these
  points, so they form one resumption. A body that is \<open>null\<close> makes the first access to
  a field of \<open>data\<close> throw, before any write: it has the outcome of \<open>BodyRejected\<close>.
\<close>

datatype 'a response = FetchRejected | StatusNotOk | BodyRejected | Body 'a

text \<open>How \<open>await navigator.mediaDevices.getUserMedia({ audio: true })\<close> can end.\<close>

datatype media_result = Denied | Granted media_stream

text \<open>
  A \<open>MediaRecorder\<close> is identified by the \<open>onstop\<close> closure installed on it: the one of
  \<open>handleStartRecording\<close>, or the one of \<open>handleStartChunkRecording(index)\<close>, which
  captures \<open>index\<close>.
\<close>

datatype recorder = FullRecorder | ChunkRecorder nat

text \<open>What a handler does to the outside world.\<close>

datatype effect =
    GetUserMedia
  | RecorderStart recorder
  | RecorderStop recorder
  | FetchPredict blob
  | FetchSynthesize string string
  | StopTracks media_stream
  | ConsoleError string

text \<open>
  The fields of \<open>AppStore\<close>. \<open>transcriptionData\<close> is declared \<open>ChunkData[]\<close>; what it
  can hold at run time is a \<open>chunk_seq\<close>.
\<close>

record AppStore =
  imageSrc :: "string option"
  audioSrc :: "object_url option"
  isRecording :: bool
  isLoading :: bool
  errorMessage :: "string option"
  transcriptionData :: chunk_seq
  synthesizedAudioSrc :: "object_url option"
  selectedAccent :: string
  rawText :: string
  mediaRecorder :: "recorder option"
  audioStream :: "media_stream option"
  audioChunks :: "blob list"
  chunkBeingRecorded :: "nat option"

text \<open>The field initialisers of the class.\<close>

definition init_store :: AppStore where
  "init_store =
     \<lparr> imageSrc = None, audioSrc = None, isRecording = False, isLoading = False,
       errorMessage = None, transcriptionData = Array [], synthesizedAudioSrc = None,
       selectedAccent = ''british'', rawText = [], mediaRecorder = None,
       audioStream = None, audioChunks = [], chunkBeingRecorded = None \<rparr>"

subsection \<open>JavaScript arrays and strings\<close>

text \<open>
  \<open>a[i] = v\<close> on an array: in range it overwrites; past the end the array grows to length
  \<open>i + 1\<close>, the slots in between reading as \<open>undefined\<close>.
\<close>

definition js_set :: "'a option list \<Rightarrow> nat \<Rightarrow> 'a option \<Rightarrow> 'a option list" where
  "js_set xs i v =
     (if i < length xs then xs[i := v]
      else xs @ replicate (i - length xs) None @ [v])"

text \<open>\<open>a[0]\<close>: the first element, \<open>undefined\<close> on an empty array.\<close>

definition js_first :: "'a option list \<Rightarrow> 'a option" where
  "js_first xs = (case xs of [] \<Rightarrow> None | x # _ \<Rightarrow> x)"

text \<open>
  \<open>a.map((chunk) => chunk.text)\<close>: the texts of the chunks. Reading \<open>.text\<close> of an absent
  element throws a \<open>TypeError\<close>, and so does \<open>.map\<close> on the absent value; \<open>None\<close> is the
  throw.
\<close>

fun texts_of :: "ChunkData option list \<Rightarrow> string list option" where
  "texts_of [] = Some []"
| "texts_of (None # cs) = None"
| "texts_of (Some c # cs) =
     (case texts_of cs of None \<Rightarrow> None | Some ts \<Rightarrow> Some (c_text c # ts))"

definition chunk_texts :: "chunk_seq \<Rightarrow> string list option" where
  "chunk_texts v = (case v of Absent \<Rightarrow> None | Array cs \<Rightarrow> texts_of cs)"

text \<open>\<open>parts.join(' ')\<close>.\<close>

fun join_space :: "string list \<Rightarrow> string" where
  "join_space [] = []"
| "join_space [x] = x"
| "join_space (x # y # ys) = x @ '' '' @ join_space (y # ys)"

text \<open>\<open>new Blob(parts)\<close>: the concatenation of the parts.\<close>

definition new_Blob :: "blob list \<Rightarrow> blob" where
  "new_Blob parts = concat parts"

subsection \<open>Full capture: \<open>handleStartRecording\<close>, \<open>handleStopRecording\<close>\<close>

text \<open>\<open>handleStartRecording\<close> up to \<open>await getUserMedia\<close>.\<close>

definition handleStartRecording :: "AppStore \<Rightarrow> effect list \<times> AppStore" where
  "handleStartRecording s =
     ([GetUserMedia],
      s\<lparr> isRecording := True, imageSrc := None, errorMessage := None,
         transcriptionData := Array [] \<rparr>)"

text \<open>
  \<open>handleStartRecording\<close> after the \<open>await\<close>: with a stream it stores the stream, empties
  \<open>audioChunks\<close>, installs the recorder and starts it; a rejection goes to the \<open>catch\<close>.
\<close>

definition handleStartRecording_resume :: "media_result \<Rightarrow> AppStore \<Rightarrow> effect list \<times> AppStore" where
  "handleStartRecording_resume r s =
     (case r of
        Granted stream \<Rightarrow>
          ([RecorderStart FullRecorder],
           s\<lparr> audioStream := Some stream, audioChunks := [],
              mediaRecorder := Some FullRecorder \<rparr>)
      | Denied \<Rightarrow>
          ([ConsoleError ''Error starting recording:''], s\<lparr> isRecording := False \<rparr>))"

text \<open>\<open>mediaRecorder.ondataavailable\<close>, the same closure on both kinds of recorder.\<close>

definition ondataavailable :: "blob \<Rightarrow> AppStore \<Rightarrow> effect list \<times> AppStore" where
  "ondataavailable fragment s =
     (if length fragment > 0 then ([], s\<lparr> audioChunks := audioChunks s @ [fragment] \<rparr>)
      else ([], s))"

definition handleStopRecording :: "AppStore \<Rightarrow> effect list \<times> AppStore" where
  "handleStopRecording s =
     (case mediaRecorder s of
        Some rec \<Rightarrow>
          (if isRecording s then ([RecorderStop rec], s\<lparr> isRecording := False \<rparr>)
           else ([], s))
      | None \<Rightarrow> ([], s))"

definition handleStartStopRecording :: "AppStore \<Rightarrow> effect list \<times> AppStore" where
  "handleStartStopRecording s =
     (if isRecording s then handleStopRecording s else handleStartRecording s)"

text \<open>The \<open>finally\<close> block shared by both \<open>onstop\<close> closures: release of the stream.\<close>

definition release_stream :: "AppStore \<Rightarrow> effect list \<times> AppStore" where
  "release_stream s =
     (case audioStream s of
        Some stream \<Rightarrow> ([StopTracks stream], s\<lparr> audioStream := None \<rparr>)
      | None \<Rightarrow> ([], s))"

text \<open>The \<open>onstop\<close> closure of \<open>handleStartRecording\<close>, up to \<open>await fetch\<close>.\<close>

definition onstop_full :: "AppStore \<Rightarrow> effect list \<times> AppStore" where
  "onstop_full s =
     (let audioBlob = new_Blob (audioChunks s) in
      if length audioBlob = 0 then ([ConsoleError ''Recorded audio blob is empty.''], s)
      else ([FetchPredict audioBlob], s\<lparr> audioSrc := Some audioBlob, isLoading := True \<rparr>))"

text \<open>
  The three statements that both full uploads run on the parsed body:
  \<open>setImageSrc(...)\<close>, \<open>setTranscriptionData(data.chunks)\<close>, and the assignment of the
  joined texts to \<open>rawText\<close>. The last one throws when \<open>data.chunks\<close> is absent or has an
  absent element; the two writes before it stay. The result says whether the statements
  completed, and gives the store they leave.
\<close>

definition store_prediction :: "prediction_data \<Rightarrow> AppStore \<Rightarrow> bool \<times> AppStore" where
  "store_prediction data s =
     (let s1 = s\<lparr> imageSrc := Some (''data:image/png;base64,'' @ image_base64 data) \<rparr>;
          s2 = s1\<lparr> transcriptionData := chunks data \<rparr>
      in case chunk_texts (chunks data) of
           None \<Rightarrow> (False, s2)
         | Some ts \<Rightarrow> (True, s2\<lparr> rawText := join_space ts \<rparr>))"

text \<open>
  The same closure after the \<open>await\<close>s: the \<open>try\<close> body, the \<open>catch\<close> when the request
  failed or a statement threw, then \<open>finally\<close>.
\<close>

definition onstop_full_resume :: "prediction_data response \<Rightarrow> AppStore \<Rightarrow> effect list \<times> AppStore" where
  "onstop_full_resume r s =
     (let (completed, s1) = (case r of Body data \<Rightarrow> store_prediction data s | _ \<Rightarrow> (False, s));
          (es, s2) =
            (if completed then ([], s1)
             else ([ConsoleError ''Error uploading audio:''],
                   s1\<lparr> errorMessage := Some ''Error uploading audio'' \<rparr>));
          (es', s3) = release_stream (s2\<lparr> isLoading := False \<rparr>)
      in (es @ es', s3))"

subsection \<open>File upload: \<open>handleFileUpload\<close>\<close>

definition handleFileUpload :: "blob \<Rightarrow> AppStore \<Rightarrow> effect list \<times> AppStore" where
  "handleFileUpload file s =
     ([FetchPredict file],
      s\<lparr> imageSrc := None, errorMessage := None, transcriptionData := Array [],
         audioSrc := Some file, isLoading := True \<rparr>)"

definition handleFileUpload_resume :: "prediction_data response \<Rightarrow> AppStore \<Rightarrow> effect list \<times> AppStore" where
  "handleFileUpload_resume r s =
     (let (completed, s1) = (case r of Body data \<Rightarrow> store_prediction data s | _ \<Rightarrow> (False, s));
          (es, s2) =
            (if completed then ([], s1)
             else ([ConsoleError ''Error uploading file:''],
                   s1\<lparr> errorMessage := Some ''Error uploading file'' \<rparr>))
      in (es, s2\<lparr> isLoading := False \<rparr>))"

subsection \<open>Synthesis: \<open>handleSynthesize\<close>\<close>

text \<open>\<open>!text || !accent\<close>: an empty string is falsy.\<close>

definition handleSynthesize :: "AppStore \<Rightarrow> effect list \<times> AppStore" where
  "handleSynthesize s =
     (let text = rawText s; accent = selectedAccent s in
      if text = [] \<or> accent = [] then
        ([], s\<lparr> errorMessage := Some ''Text or accent is missing.'' \<rparr>)
      else
        ([FetchSynthesize text accent],
         s\<lparr> isLoading := True, errorMessage := None, synthesizedAudioSrc := None \<rparr>))"

definition handleSynthesize_resume :: "blob response \<Rightarrow> AppStore \<Rightarrow> effect list \<times> AppStore" where
  "handleSynthesize_resume r s =
     (let (es, s1) =
        (case r of
           Body audioBlob \<Rightarrow> ([], s\<lparr> synthesizedAudioSrc := Some audioBlob \<rparr>)
         | _ \<Rightarrow>
             ([ConsoleError ''Error synthesizing audio:''],
              s\<lparr> errorMessage := Some ''Error synthesizing audio'' \<rparr>))
      in (es, s1\<lparr> isLoading := False \<rparr>))"

subsection \<open>Chunk re-recording: \<open>handleStartChunkRecording\<close>\<close>

definition handleStartChunkRecording :: "nat \<Rightarrow> AppStore \<Rightarrow> effect list \<times> AppStore" where
  "handleStartChunkRecording index s =
     (if isRecording s then ([], s)
      else ([GetUserMedia], s\<lparr> chunkBeingRecorded := Some index, isRecording := True \<rparr>))"

definition handleStartChunkRecording_resume ::
    "nat \<Rightarrow> media_result \<Rightarrow> AppStore \<Rightarrow> effect list \<times> AppStore" where
  "handleStartChunkRecording_resume index r s =
     (case r of
        Granted stream \<Rightarrow>
          ([RecorderStart (ChunkRecorder index)],
           s\<lparr> audioStream := Some stream, audioChunks := [],
              mediaRecorder := Some (ChunkRecorder index) \<rparr>)
      | Denied \<Rightarrow>
          ([ConsoleError ''Error starting chunk recording:''], s\<lparr> isRecording := False \<rparr>))"

text \<open>The \<open>onstop\<close> closure of \<open>handleStartChunkRecording(index)\<close>, up to \<open>await fetch\<close>.\<close>

definition onstop_chunk :: "nat \<Rightarrow> AppStore \<Rightarrow> effect list \<times> AppStore" where
  "onstop_chunk index s =
     (let audioBlob = new_Blob (audioChunks s) in
      if length audioBlob = 0 then ([ConsoleError ''Recorded audio blob is empty.''], s)
      else ([FetchPredict audioBlob], s\<lparr> isLoading := True \<rparr>))"

text \<open>
  The merge: the statements run on the parsed body. \<open>[...prevData]\<close> copies the array
  the store holds now and throws when the store holds the absent value;
  \<open>data.chunks[0]\<close> throws when \<open>data.chunks\<close> is absent. Both come before the one write.
\<close>

definition merge_chunk :: "nat \<Rightarrow> prediction_data \<Rightarrow> AppStore \<Rightarrow> bool \<times> AppStore" where
  "merge_chunk index data s =
     (case transcriptionData s of
        Absent \<Rightarrow> (False, s)
      | Array prevData \<Rightarrow>
          (case chunks data of
             Absent \<Rightarrow> (False, s)
           | Array cs \<Rightarrow>
               (let replacedIndex = index;
                    newData = js_set prevData replacedIndex (js_first cs)
                in (True, s\<lparr> transcriptionData := Array newData \<rparr>))))"

text \<open>The same closure after the \<open>await\<close>s.\<close>

definition onstop_chunk_resume ::
    "nat \<Rightarrow> prediction_data response \<Rightarrow> AppStore \<Rightarrow> effect list \<times> AppStore" where
  "onstop_chunk_resume index r s =
     (let (completed, s1) = (case r of Body data \<Rightarrow> merge_chunk index data s | _ \<Rightarrow> (False, s));
          (es, s2) =
            (if completed then ([], s1)
             else ([ConsoleError ''Error uploading audio:''],
                   s1\<lparr> errorMessage := Some ''Error uploading audio'' \<rparr>));
          (es', s3) = release_stream (s2\<lparr> isLoading := False \<rparr>)
      in (es @ es', s3\<lparr> chunkBeingRecorded := None, isRecording := False \<rparr>))"

subsection \<open>Events and traces\<close>

text \<open>
  What the browser can deliver to the store: the user's actions on the page, and the
  settling of a promise or the firing of a recorder event, each of which runs the pending
  part of the handler it belongs to.
\<close>

datatype event =
    ClickStartStop
  | UserMediaFull media_result
  | ClickRerecord nat
  | UserMediaChunk nat media_result
  | DataAvailable blob
  | RecorderStopped recorder
  | PredictSettled recorder "prediction_data response"
  | SelectFile blob
  | FileUploadSettled "prediction_data response"
  | ClickSynthesize
  | SynthesizeSettled "blob response"
  | SelectAccent string

fun step :: "event \<Rightarrow> AppStore \<Rightarrow> effect list \<times> AppStore" where
  "step ClickStartStop s = handleStartStopRecording s"
| "step (UserMediaFull r) s = handleStartRecording_resume r s"
| "step (ClickRerecord index) s = handleStartChunkRecording index s"
| "step (UserMediaChunk index r) s = handleStartChunkRecording_resume index r s"
| "step (DataAvailable fragment) s = ondataavailable fragment s"
| "step (RecorderStopped FullRecorder) s = onstop_full s"
| "step (RecorderStopped (ChunkRecorder index)) s = onstop_chunk index s"
| "step (PredictSettled FullRecorder r) s = onstop_full_resume r s"
| "step (PredictSettled (ChunkRecorder index) r) s = onstop_chunk_resume index r s"
| "step (SelectFile file) s = handleFileUpload file s"
| "step (FileUploadSettled r) s = handleFileUpload_resume r s"
| "step ClickSynthesize s = handleSynthesize s"
| "step (SynthesizeSettled r) s = handleSynthesize_resume r s"
| "step (SelectAccent a) s = ([], s\<lparr> selectedAccent := a \<rparr>)"

text \<open>A trace run from a store: all effects in order, and the final store.\<close>

fun run :: "event list \<Rightarrow> AppStore \<Rightarrow> effect list \<times> AppStore" where
  "run [] s = ([], s)"
| "run (e # evs) s =
     (let (es, s1) = step e s; (es', s2) = run evs s1 in (es @ es', s2))"

subsection \<open>Concrete sessions\<close>

text \<open>
  The three-chunk transcript of the re-recording scenario, and the chunk that replaces the
  second one.
\<close>

definition chunk_hi :: ChunkData where
  "chunk_hi = \<lparr> c_start = 0, c_end = 1, c_text = ''hi'',
                c_prediction = [(''british'', 0.9), (''us'', 0.1)] \<rparr>"

definition chunk_there :: ChunkData where
  "chunk_there = \<lparr> c_start = 1, c_end = 2, c_text = ''there'',
                   c_prediction = [(''british'', 0.5), (''us'', 0.5)] \<rparr>"

definition chunk_x :: ChunkData where
  "chunk_x = \<lparr> c_start = 2, c_end = 3, c_text = ''x'',
               c_prediction = [(''british'', 0.2), (''us'', 0.8)] \<rparr>"

definition chunk_there_again :: ChunkData where
  "chunk_there_again = \<lparr> c_start = 1, c_end = 2, c_text = ''there again'',
                         c_prediction = [(''british'', 0.4), (''us'', 0.6)] \<rparr>"

text \<open>A prediction body with the given chunks, and the response that carries it.\<close>

definition data_of :: "ChunkData list \<Rightarrow> prediction_data" where
  "data_of cs = \<lparr> image_base64 = ''iVBORw0KGgo='', chunks = Array (map Some cs) \<rparr>"

definition body_of :: "ChunkData list \<Rightarrow> prediction_data response" where
  "body_of cs = Body (data_of cs)"

text \<open>The user selects a file and the prediction service answers with the given chunks.\<close>

definition upload_of :: "ChunkData list \<Rightarrow> event list" where
  "upload_of cs = [SelectFile ''RIFF'', FileUploadSettled (body_of cs)]"

text \<open>
  A whole re-recording of the chunk at \<open>index\<close> with nothing else in between: the click on
  the row's button, the grant of the microphone, the recorder's fragments, the click that
  stops the recording, the recorder's stop event, and the successful prediction response.
\<close>

definition rerecord_trace ::
    "nat \<Rightarrow> media_stream \<Rightarrow> blob list \<Rightarrow> prediction_data \<Rightarrow> event list" where
  "rerecord_trace index stream fragments data =
     [ClickRerecord index, UserMediaChunk index (Granted stream)]
     @ map DataAvailable fragments
     @ [ClickStartStop, RecorderStopped (ChunkRecorder index),
        PredictSettled (ChunkRecorder index) (Body data)]"

text \<open>
  A session in which the store is replaced while a re-recording is under way: a
  two-chunk transcript is loaded and the re-recording of its second chunk starts
  (\<open>stale_start\<close>); the user then selects another file, whose one-chunk transcript
  arrives, and stops the recording (\<open>stale_between\<close>); last, the prediction for the
  re-recorded audio arrives (\<open>stale_merge\<close>).
\<close>

definition stale_start :: "event list" where
  "stale_start = upload_of [chunk_hi, chunk_there]
     @ [ClickRerecord 1, UserMediaChunk 1 (Granted 0), DataAvailable ''a'']"

definition stale_between :: "event list" where
  "stale_between = upload_of [chunk_x] @ [ClickStartStop, RecorderStopped (ChunkRecorder 1)]"

definition stale_merge :: "event list" where
  "stale_merge = [PredictSettled (ChunkRecorder 1) (body_of [chunk_there_again])]"

text \<open>A transcript whose only chunk has no text.\<close>

definition chunk_silent :: ChunkData where
  "chunk_silent = \<lparr> c_start = 0, c_end = 1, c_text = [], c_prediction = [] \<rparr>"

text \<open>A file upload whose request fails on the network.\<close>

definition failed_reupload :: "event list" where
  "failed_reupload = [SelectFile ''RIFF'', FileUploadSettled FetchRejected]"

text \<open>
  A capture that is stopped before the recorder delivered any fragment: start, grant of
  the microphone (stream 7), stop, and the recorder's stop event.
\<close>

definition empty_capture :: "event list" where
  "empty_capture = [ClickStartStop, UserMediaFull (Granted 7), ClickStartStop,
                    RecorderStopped FullRecorder]"

text \<open>The same for the re-recording of chunk 0 of a one-chunk transcript.\<close>

definition empty_rerecord :: "event list" where
  "empty_rerecord = upload_of [chunk_hi]
     @ [ClickRerecord 0, UserMediaChunk 0 (Granted 3), ClickStartStop,
        RecorderStopped (ChunkRecorder 0)]"

text \<open>
  The only chunk of a transcript is re-recorded, and the new chunk has no text.
\<close>

definition silent_rerecord :: "event list" where
  "silent_rerecord = upload_of [chunk_hi] @ rerecord_trace 0 0 [''a''] (data_of [chunk_silent])"

text \<open>
  A transcript without text is loaded, and its only chunk is re-recorded with a text.
\<close>

definition voiced_rerecord :: "event list" where
  "voiced_rerecord =
     upload_of [chunk_silent] @ rerecord_trace 0 0 [''a''] (data_of [chunk_there_again])"

text \<open>The prediction for a re-recording of index 1 arrives without any chunk.\<close>

definition empty_merge :: "event list" where
  "empty_merge = [PredictSettled (ChunkRecorder 1) (body_of [])]"

text \<open>A body whose chunk array has an absent second element.\<close>

definition broken_data :: prediction_data where
  "broken_data = \<lparr> image_base64 = ''iVBORw0KGgo='', chunks = Array [Some chunk_hi, None] \<rparr>"

section \<open>Properties\<close>

subsection \<open>Unfolding and traces\<close>

lemmas handler_defs =
  handleStartStopRecording_def handleStartRecording_def handleStartRecording_resume_def
  ondataavailable_def handleStopRecording_def release_stream_def onstop_full_def
  onstop_full_resume_def handleFileUpload_def handleFileUpload_resume_def
  handleSynthesize_def handleSynthesize_resume_def handleStartChunkRecording_def
  handleStartChunkRecording_resume_def onstop_chunk_def onstop_chunk_resume_def
  store_prediction_def merge_chunk_def chunk_texts_def
  new_Blob_def js_set_def js_first_def Let_def

lemmas example_defs =
  chunk_hi_def chunk_there_def chunk_x_def chunk_there_again_def chunk_silent_def
  data_of_def body_of_def upload_of_def init_store_def

lemma run_append:
  "run (xs @ ys) s = (let (a, s1) = run xs s; (b, s2) = run ys s1 in (a @ b, s2))"
  by (induction xs arbitrary: s) (auto split: prod.splits)

text \<open>Fragments only accumulate in \<open>audioChunks\<close>, the empty ones dropped.\<close>

lemma run_data:
  "run (map DataAvailable frags) s
     = ([], s\<lparr> audioChunks := audioChunks s @ filter (\<lambda>b. b \<noteq> []) frags \<rparr>)"
  by (induction frags arbitrary: s) (auto simp: ondataavailable_def)

lemma concat_filter_nonempty: "concat (filter (\<lambda>b. b \<noteq> []) frags) = concat frags"
  by (induction frags) auto

text \<open>An array of chunks without absent elements has its texts.\<close>

lemma texts_of_map_Some: "texts_of (map Some cs) = Some (map c_text cs)"
  by (induction cs) auto

subsection \<open>The merge of a re-recorded chunk\<close>

text \<open>
  C1, as stated, fails. The claim: a re-record whose chunk sequence was mutated between
  its start and its completion is rejected with \<open>StaleChunkIndex\<close> and leaves the chunk
  store unchanged. In the session below the store is replaced by a full upload while the
  re-recording of index 1 is under way (the store at merge time differs from the store at
  the start), and yet the merge writes the store (here it even grows it, the index being
  past the end of the new sequence) and records no error.
\<close>

theorem stale_merge_counterexample:
  "transcriptionData (snd (run (stale_start @ stale_between) init_store))
     \<noteq> transcriptionData (snd (run stale_start init_store))
   \<and> transcriptionData (snd (run (stale_start @ stale_between @ stale_merge) init_store))
     \<noteq> transcriptionData (snd (run (stale_start @ stale_between) init_store))
   \<and> errorMessage (snd (run (stale_start @ stale_between @ stale_merge) init_store)) = None"
  by (simp add: stale_start_def stale_between_def stale_merge_def example_defs handler_defs)

text \<open>
  C1, amended: the store keeps no generation counter and has no \<open>StaleChunkIndex\<close> error.
  When the prediction for a re-recorded chunk arrives, the merge always assigns element 0
  of the response at the index given to \<open>handleStartChunkRecording\<close>, in the sequence the
  store holds at that moment, whatever happened to the store since the re-recording
  started, and leaves \<open>errorMessage\<close> as it was. (Only when the store or the chunks of the
  response hold no array at all does the assignment throw, before any write; then the
  store is left as it is and the upload error is recorded.)
\<close>

theorem chunk_merge_unconditional:
  "transcriptionData (snd (onstop_chunk_resume index (Body data) s))
     = (case transcriptionData s of
          Absent \<Rightarrow> Absent
        | Array xs \<Rightarrow>
            (case chunks data of
               Absent \<Rightarrow> Array xs
             | Array cs \<Rightarrow> Array (js_set xs index (js_first cs))))
   \<and> errorMessage (snd (onstop_chunk_resume index (Body data) s))
     = (case transcriptionData s of
          Absent \<Rightarrow> Some ''Error uploading audio''
        | Array xs \<Rightarrow>
            (case chunks data of
               Absent \<Rightarrow> Some ''Error uploading audio''
             | Array cs \<Rightarrow> errorMessage s))"
  by (simp add: onstop_chunk_resume_def merge_chunk_def release_stream_def
      split: option.splits chunk_seq.splits)

theorem chunk_merge_unconditional_witness:
  "transcriptionData (snd (run (stale_start @ stale_between @ stale_merge) init_store))
     = Array [Some chunk_x, Some chunk_there_again]"
  using chunk_merge_unconditional
    [of 1 "data_of [chunk_there_again]" "snd (run (stale_start @ stale_between) init_store)"]
  by (simp add: stale_start_def stale_between_def stale_merge_def example_defs handler_defs)

text \<open>The store after an uninterrupted re-recording, from the store at its start.\<close>

lemma rerecord_trace_store:
  assumes "\<not> isRecording s" and "concat fragments \<noteq> []"
    and "transcriptionData s = Array xs" and "chunks data = Array cs"
  shows "transcriptionData (snd (run (rerecord_trace index stream fragments data) s))
           = Array (js_set xs index (js_first cs))"
  using assms
  by (simp add: rerecord_trace_def run_append run_data concat_filter_nonempty
      handleStartChunkRecording_def handleStartChunkRecording_resume_def
      handleStartStopRecording_def handleStopRecording_def onstop_chunk_def
      onstop_chunk_resume_def merge_chunk_def release_stream_def new_Blob_def)

text \<open>
  C2: a re-recording of a valid index \<open>i\<close> that starts when no recording is in progress,
  records a non-empty blob, runs with nothing else in between (so the store at the merge
  is the store at the start) and gets a response of exactly one chunk, replaces the chunk
  at \<open>i\<close> by that chunk and leaves the length and every other chunk as they were.
\<close>

theorem rerecord_replaces_exactly_index:
  assumes "\<not> isRecording s" and "transcriptionData s = Array xs" and "i < length xs"
    and "chunks data = Array [Some c]" and "concat fragments \<noteq> []"
  shows "\<exists>ys. transcriptionData (snd (run (rerecord_trace i stream fragments data) s)) = Array ys
           \<and> length ys = length xs
           \<and> ys ! i = Some c
           \<and> (\<forall>j < length xs. j \<noteq> i \<longrightarrow> ys ! j = xs ! j)"
  using assms by (simp add: rerecord_trace_store js_set_def js_first_def)

text \<open>The scenario of the specification: three chunks, the second one re-recorded.\<close>

theorem rerecord_replaces_exactly_index_witness:
  "transcriptionData (snd (run (upload_of [chunk_hi, chunk_there, chunk_x]) init_store))
     = Array [Some chunk_hi, Some chunk_there, Some chunk_x]
   \<and> transcriptionData (snd (run (rerecord_trace 1 0 [''a'', ''b''] (data_of [chunk_there_again]))
        (snd (run (upload_of [chunk_hi, chunk_there, chunk_x]) init_store))))
       = Array [Some chunk_hi, Some chunk_there_again, Some chunk_x]"
proof -
  let ?s = "snd (run (upload_of [chunk_hi, chunk_there, chunk_x]) init_store)"
  let ?xs = "[Some chunk_hi, Some chunk_there, Some chunk_x]"
  have s: "transcriptionData ?s = Array ?xs"
    and r: "\<not> isRecording ?s"
    by (simp_all add: example_defs handler_defs)
  have i: "1 < length ?xs" by simp
  have d: "chunks (data_of [chunk_there_again]) = Array [Some chunk_there_again]"
    by (simp add: data_of_def)
  have f: "concat [''a'', ''b''] \<noteq> []" by simp
  from rerecord_replaces_exactly_index [OF r s i d f, of 0]
  obtain ys where ys: "transcriptionData (snd (run (rerecord_trace 1 0 [''a'', ''b'']
        (data_of [chunk_there_again])) ?s)) = Array ys"
    and l: "length ys = 3" and y1: "ys ! 1 = Some chunk_there_again"
    and o: "\<forall>j<3. j \<noteq> 1 \<longrightarrow> ys ! j = ?xs ! j"
    by auto
  from l obtain a b c where abc: "ys = [a, b, c]"
    by (auto simp: length_Suc_conv numeral_3_eq_3)
  from o [rule_format, of 0] o [rule_format, of 2] abc
  have "a = Some chunk_hi" "c = Some chunk_x" by simp_all
  moreover from y1 abc have "b = Some chunk_there_again" by simp
  ultimately have "ys = [Some chunk_hi, Some chunk_there_again, Some chunk_x]"
    using abc by simp
  with ys s show ?thesis by simp
qed

subsection \<open>Full uploads\<close>

text \<open>
  C3, as stated, fails. The claim: a failed full upload leaves the chunk store as it was
  when the upload was invoked. Here a one-chunk transcript is in the store when the user
  selects another file; the request fails, and the store is not what it was.
\<close>

theorem failed_upload_counterexample:
  "transcriptionData (snd (run (upload_of [chunk_hi] @ failed_reupload) init_store))
     \<noteq> transcriptionData (snd (run (upload_of [chunk_hi]) init_store))"
  by (simp add: failed_reupload_def example_defs handler_defs)

text \<open>
  C3, amended: \<open>handleFileUpload\<close> and \<open>handleStartRecording\<close> empty the store when they
  are invoked, before any request is sent. When the response arrives with a body, the
  handler replaces the whole store by the \<open>chunks\<close> of the body; the upload succeeds if
  the texts of these chunks can be read, and fails after that write if they cannot (no
  array, or an absent element). When the response arrives without a body (the request
  failed, the status is not ok, the body cannot be read), the upload fails and the
  handler leaves the store as it is at that moment. On every failure the handler's error
  message is recorded; on success \<open>errorMessage\<close> is left as it was.
\<close>

theorem full_upload_store:
  "transcriptionData (snd (handleFileUpload file s)) = Array []
   \<and> transcriptionData (snd (handleStartRecording s)) = Array []
   \<and> transcriptionData (snd (handleFileUpload_resume r s))
       = (case r of Body data \<Rightarrow> chunks data | _ \<Rightarrow> transcriptionData s)
   \<and> transcriptionData (snd (onstop_full_resume r s))
       = (case r of Body data \<Rightarrow> chunks data | _ \<Rightarrow> transcriptionData s)
   \<and> errorMessage (snd (handleFileUpload_resume r s))
       = (case r of
            Body data \<Rightarrow>
              (case chunk_texts (chunks data) of
                 Some ts \<Rightarrow> errorMessage s
               | None \<Rightarrow> Some ''Error uploading file'')
          | _ \<Rightarrow> Some ''Error uploading file'')
   \<and> errorMessage (snd (onstop_full_resume r s))
       = (case r of
            Body data \<Rightarrow>
              (case chunk_texts (chunks data) of
                 Some ts \<Rightarrow> errorMessage s
               | None \<Rightarrow> Some ''Error uploading audio'')
          | _ \<Rightarrow> Some ''Error uploading audio'')"
  by (cases r) (simp_all add: handleFileUpload_def handleStartRecording_def
      handleFileUpload_resume_def onstop_full_resume_def store_prediction_def
      release_stream_def split: option.splits)

text \<open>
  A file upload from the initial store that succeeds; one whose body has an absent chunk;
  and one that fails on its status, started when a transcript was in the store.
\<close>

theorem full_upload_store_witness:
  "transcriptionData (snd (step (FileUploadSettled (body_of [chunk_hi, chunk_there]))
       (snd (step (SelectFile ''RIFF'') init_store))))
     = Array [Some chunk_hi, Some chunk_there]
   \<and> errorMessage (snd (step (FileUploadSettled (body_of [chunk_hi, chunk_there]))
       (snd (step (SelectFile ''RIFF'') init_store)))) = None
   \<and> transcriptionData (snd (step (FileUploadSettled (Body broken_data))
       (snd (step (SelectFile ''RIFF'') init_store))))
     = Array [Some chunk_hi, None]
   \<and> errorMessage (snd (step (FileUploadSettled (Body broken_data))
       (snd (step (SelectFile ''RIFF'') init_store)))) = Some ''Error uploading file''
   \<and> transcriptionData (snd (step (FileUploadSettled StatusNotOk)
       (snd (step (SelectFile ''RIFF'') (snd (run (upload_of [chunk_hi]) init_store))))))
     = Array []"
proof -
  let ?s = "snd (step (SelectFile ''RIFF'') init_store)"
  let ?t = "snd (step (SelectFile ''RIFF'') (snd (run (upload_of [chunk_hi]) init_store)))"
  have e: "errorMessage ?s = None" by (simp add: handleFileUpload_def)
  have t: "transcriptionData ?t = Array []" by (simp add: handleFileUpload_def)
  have c: "chunk_texts (chunks (data_of [chunk_hi, chunk_there])) \<noteq> None"
    "chunk_texts (chunks broken_data) = None"
    by (simp_all add: chunk_texts_def data_of_def broken_data_def)
  from full_upload_store [of "''RIFF''" ?s "body_of [chunk_hi, chunk_there]"]
    full_upload_store [of "''RIFF''" ?s "Body broken_data"]
    full_upload_store [of "''RIFF''" ?t StatusNotOk] e t c
  show ?thesis
    by (auto simp del: run.simps simp: body_of_def data_of_def broken_data_def)
qed

subsection \<open>Operations in flight\<close>

text \<open>
  C4, as stated, fails. The claim: a second mutating operation started while one is
  outstanding is rejected with \<open>OperationInProgress\<close>. Here \<open>handleSynthesize\<close> is called
  twice in a row: both requests are sent, none of them has settled, and no error is
  recorded. Likewise a file selected while a synthesis is in flight is uploaded at once.
\<close>

theorem second_synthesis_counterexample:
  "fst (run (upload_of [chunk_hi] @ [ClickSynthesize, ClickSynthesize]) init_store)
     = [FetchPredict ''RIFF'', FetchSynthesize ''hi'' ''british'',
        FetchSynthesize ''hi'' ''british'']
   \<and> errorMessage
       (snd (run (upload_of [chunk_hi] @ [ClickSynthesize, ClickSynthesize]) init_store))
     = None
   \<and> fst (run (upload_of [chunk_hi] @ [ClickSynthesize, SelectFile ''OggS'']) init_store)
     = [FetchPredict ''RIFF'', FetchSynthesize ''hi'' ''british'', FetchPredict ''OggS'']
   \<and> errorMessage
       (snd (run (upload_of [chunk_hi] @ [ClickSynthesize, SelectFile ''OggS'']) init_store))
     = None"
  by (simp add: example_defs handler_defs)

text \<open>
  C4, amended: while a recording is in progress (\<open>isRecording\<close> set), a call of
  \<open>handleStartChunkRecording\<close> returns with no effect and leaves the whole store
  unchanged: the re-recording is not started and not queued, and no error is recorded.
  In the same stores \<open>handleStartStopRecording\<close> does what \<open>handleStopRecording\<close> does
  and does not ask for the microphone. A synthesis or a file upload is sent in every
  store, whatever is in progress: \<open>handleSynthesize\<close>, when it has a text and an accent,
  sends its request and leaves \<open>errorMessage\<close> empty, and so does \<open>handleFileUpload\<close>.
\<close>

theorem operations_while_busy:
  "(isRecording s \<longrightarrow> handleStartChunkRecording index s = ([], s))
   \<and> (isRecording s \<longrightarrow>
        handleStartStopRecording s = handleStopRecording s
        \<and> GetUserMedia \<notin> set (fst (handleStartStopRecording s)))
   \<and> (rawText s \<noteq> [] \<and> selectedAccent s \<noteq> [] \<longrightarrow>
        fst (handleSynthesize s) = [FetchSynthesize (rawText s) (selectedAccent s)]
        \<and> errorMessage (snd (handleSynthesize s)) = None)
   \<and> fst (handleFileUpload file s) = [FetchPredict file]
   \<and> errorMessage (snd (handleFileUpload file s)) = None"
  by (simp add: handleStartChunkRecording_def handleSynthesize_def handleFileUpload_def
      handleStartStopRecording_def handleStopRecording_def split: option.splits)

text \<open>A store with a synthesis in flight and a re-recording under way.\<close>

theorem operations_while_busy_witness:
  "isRecording (snd (run (upload_of [chunk_hi] @ [ClickSynthesize, ClickRerecord 0]) init_store))
   \<and> isLoading (snd (run (upload_of [chunk_hi] @ [ClickSynthesize, ClickRerecord 0]) init_store))
   \<and> handleStartChunkRecording 0
        (snd (run (upload_of [chunk_hi] @ [ClickSynthesize, ClickRerecord 0]) init_store))
       = ([], snd (run (upload_of [chunk_hi] @ [ClickSynthesize, ClickRerecord 0]) init_store))
   \<and> GetUserMedia \<notin> set (fst (handleStartStopRecording
        (snd (run (upload_of [chunk_hi] @ [ClickSynthesize, ClickRerecord 0]) init_store))))
   \<and> fst (handleSynthesize
        (snd (run (upload_of [chunk_hi] @ [ClickSynthesize, ClickRerecord 0]) init_store)))
       = [FetchSynthesize ''hi'' ''british'']
   \<and> fst (handleFileUpload ''OggS''
        (snd (run (upload_of [chunk_hi] @ [ClickSynthesize, ClickRerecord 0]) init_store)))
       = [FetchPredict ''OggS'']"
proof -
  let ?s = "snd (run (upload_of [chunk_hi] @ [ClickSynthesize, ClickRerecord 0]) init_store)"
  have f: "isRecording ?s" "isLoading ?s"
    and g: "rawText ?s = ''hi''" "selectedAccent ?s = ''british''"
    by (simp_all add: example_defs handler_defs)
  from g have n: "rawText ?s \<noteq> [] \<and> selectedAccent ?s \<noteq> []" by simp
  note w = operations_while_busy [of ?s 0 "''OggS''"]
  from w f(1) have 1: "handleStartChunkRecording 0 ?s = ([], ?s)" by blast
  from w f(1) have 2: "GetUserMedia \<notin> set (fst (handleStartStopRecording ?s))" by blast
  from w n have "fst (handleSynthesize ?s) = [FetchSynthesize (rawText ?s) (selectedAccent ?s)]"
    by blast
  then have 3: "fst (handleSynthesize ?s) = [FetchSynthesize ''hi'' ''british'']"
    by (simp only: g)
  from w have 4: "fst (handleFileUpload ''OggS'' ?s) = [FetchPredict ''OggS'']" by blast
  from f 1 2 3 4 show ?thesis by blast
qed

subsection \<open>Release of the microphone\<close>

text \<open>
  When the prediction for a capture settles, with a body or with a failure, the
  \<open>finally\<close> block stops the tracks of the stream and forgets the stream.
\<close>

lemma settled_capture_releases_stream:
  assumes "audioStream s = Some stream"
  shows "StopTracks stream \<in> set (fst (onstop_full_resume r s))"
    and "audioStream (snd (onstop_full_resume r s)) = None"
proof -
  have u: "audioStream (snd (store_prediction data s)) = Some stream" for data
    using assms by (simp add: store_prediction_def Let_def split: option.splits)
  show "StopTracks stream \<in> set (fst (onstop_full_resume r s))"
    using assms u
    by (cases r) (simp_all add: onstop_full_resume_def release_stream_def case_prod_unfold Let_def)
  show "audioStream (snd (onstop_full_resume r s)) = None"
    using assms u
    by (cases r) (simp_all add: onstop_full_resume_def release_stream_def case_prod_unfold Let_def)
qed

text \<open>
  C5: the claim asks for a release of the stream on every exit of the capture, the empty
  blob included. The \<open>onstop\<close> closure returns on an empty blob before its
  \<open>try ... finally\<close>: in the capture below the tracks of stream 7 are never stopped, and the
  store still holds the stream at the end.
\<close>

theorem empty_capture_keeps_stream:
  "run empty_capture init_store
     = ([GetUserMedia, RecorderStart FullRecorder, RecorderStop FullRecorder,
         ConsoleError ''Recorded audio blob is empty.''],
        init_store\<lparr> mediaRecorder := Some FullRecorder, audioStream := Some 7 \<rparr>)"
  by (simp add: empty_capture_def init_store_def handler_defs)

subsection \<open>An empty recording\<close>

text \<open>
  C6, as stated, fails. The claim: a capture stopped with an empty blob fails with the
  error \<open>EmptyRecording\<close>. In the capture below the only trace of the failure is a line
  on the console: \<open>errorMessage\<close>, through which the store reports its errors to the
  page, holds nothing at the end.
\<close>

theorem empty_recording_counterexample:
  "errorMessage (snd (run empty_capture init_store)) = None
   \<and> fst (run empty_capture init_store)
       = [GetUserMedia, RecorderStart FullRecorder, RecorderStop FullRecorder,
          ConsoleError ''Recorded audio blob is empty.'']"
  by (simp add: empty_capture_def init_store_def handler_defs)

text \<open>
  C6, amended: when a capture is stopped and the blob made of the recorded fragments is
  empty, the handler writes "Recorded audio blob is empty." on the console and returns.
  No prediction request is sent, \<open>isRecording\<close> is cleared, and \<open>isLoading\<close>,
  \<open>errorMessage\<close> and the chunk store are left as they were: the store is idle again if
  it was only capturing, and it records no error.
\<close>

theorem empty_blob_no_upload:
  assumes "isRecording s" and "mediaRecorder s = Some FullRecorder"
    and "new_Blob (audioChunks s) = []"
  shows "ConsoleError ''Recorded audio blob is empty.''
           \<in> set (fst (run [ClickStartStop, RecorderStopped FullRecorder] s))
         \<and> (\<forall>b. FetchPredict b \<notin> set (fst (run [ClickStartStop, RecorderStopped FullRecorder] s)))
         \<and> \<not> isRecording (snd (run [ClickStartStop, RecorderStopped FullRecorder] s))
         \<and> isLoading (snd (run [ClickStartStop, RecorderStopped FullRecorder] s)) = isLoading s
         \<and> errorMessage (snd (run [ClickStartStop, RecorderStopped FullRecorder] s))
             = errorMessage s
         \<and> transcriptionData (snd (run [ClickStartStop, RecorderStopped FullRecorder] s))
             = transcriptionData s"
  using assms
  by (simp add: handleStartStopRecording_def handleStopRecording_def onstop_full_def)

theorem empty_blob_no_upload_witness:
  "\<not> isRecording (snd (run [ClickStartStop, RecorderStopped FullRecorder]
       (snd (run [ClickStartStop, UserMediaFull (Granted 7), DataAvailable []] init_store))))
   \<and> \<not> isLoading (snd (run [ClickStartStop, RecorderStopped FullRecorder]
       (snd (run [ClickStartStop, UserMediaFull (Granted 7), DataAvailable []] init_store))))
   \<and> errorMessage (snd (run [ClickStartStop, RecorderStopped FullRecorder]
       (snd (run [ClickStartStop, UserMediaFull (Granted 7), DataAvailable []] init_store))))
       = None
   \<and> FetchPredict [] \<notin> set (fst (run [ClickStartStop, RecorderStopped FullRecorder]
       (snd (run [ClickStartStop, UserMediaFull (Granted 7), DataAvailable []] init_store))))
   \<and> ConsoleError ''Recorded audio blob is empty.''
       \<in> set (fst (run [ClickStartStop, RecorderStopped FullRecorder]
       (snd (run [ClickStartStop, UserMediaFull (Granted 7), DataAvailable []] init_store))))"
proof -
  let ?s = "snd (run [ClickStartStop, UserMediaFull (Granted 7), DataAvailable []] init_store)"
  let ?t = "run [ClickStartStop, RecorderStopped FullRecorder] ?s"
  have p: "isRecording ?s" "mediaRecorder ?s = Some FullRecorder"
    "new_Blob (audioChunks ?s) = []"
    and q: "\<not> isLoading ?s" "errorMessage ?s = None"
    by (simp_all add: init_store_def handler_defs)
  note w = empty_blob_no_upload [OF p]
  from w have 1: "\<not> isRecording (snd ?t)" by blast
  from w q(1) have 2: "\<not> isLoading (snd ?t)" by blast
  from w have "errorMessage (snd ?t) = errorMessage ?s" by blast
  from this q(2) have 3: "errorMessage (snd ?t) = None" by (rule trans)
  from w have 4: "FetchPredict [] \<notin> set (fst ?t)" by blast
  from w have 5: "ConsoleError ''Recorded audio blob is empty.'' \<in> set (fst ?t)" by blast
  from 1 2 3 4 5 show ?thesis by blast
qed

subsection \<open>Synthesis\<close>

text \<open>
  C7, as stated, fails. The claim: a request for synthesis fails with \<open>MissingInput\<close>
  and sends nothing when the joined transcript text is empty. After the re-recording
  below the store holds one chunk without text, so the texts of its chunks join to the
  empty string; \<open>handleSynthesize\<close> still sends a request, with the text of the last full
  upload, and records no error.
\<close>

theorem synthesize_stale_text_counterexample:
  "transcriptionData (snd (run silent_rerecord init_store)) = Array [Some chunk_silent]
   \<and> chunk_texts (transcriptionData (snd (run silent_rerecord init_store))) = Some [[]]
   \<and> join_space [[]] = []
   \<and> fst (step ClickSynthesize (snd (run silent_rerecord init_store)))
       = [FetchSynthesize ''hi'' ''british'']
   \<and> errorMessage (snd (step ClickSynthesize (snd (run silent_rerecord init_store)))) = None"
  by (simp add: silent_rerecord_def rerecord_trace_def example_defs handler_defs)

text \<open>
  C7, amended: \<open>handleSynthesize\<close> tests \<open>rawText\<close>, the joined text stored by the last
  successful full upload, not the chunks the store holds now. When \<open>rawText\<close> is empty
  or no accent is selected, it records "Text or accent is missing.", sends nothing, and
  changes nothing else in the store, \<open>isRecording\<close> and \<open>isLoading\<close> included.
\<close>

theorem synthesize_missing_input:
  assumes "rawText s = [] \<or> selectedAccent s = []"
  shows "handleSynthesize s = ([], s\<lparr> errorMessage := Some ''Text or accent is missing.'' \<rparr>)"
  using assms by (auto simp: handleSynthesize_def)

text \<open>
  A transcript without text is loaded and its chunk re-recorded: the store now holds a
  text, \<open>rawText\<close> is still empty, and the request for synthesis is refused.
\<close>

theorem synthesize_missing_input_witness:
  "transcriptionData (snd (run voiced_rerecord init_store)) = Array [Some chunk_there_again]
   \<and> rawText (snd (run voiced_rerecord init_store)) = []
   \<and> step ClickSynthesize (snd (run voiced_rerecord init_store))
     = ([], snd (run voiced_rerecord init_store)
              \<lparr> errorMessage := Some ''Text or accent is missing.'' \<rparr>)"
proof -
  let ?s = "snd (run voiced_rerecord init_store)"
  have r: "rawText ?s = []" and t: "transcriptionData ?s = Array [Some chunk_there_again]"
    by (simp_all add: voiced_rerecord_def rerecord_trace_def example_defs handler_defs)
  from r have "rawText ?s = [] \<or> selectedAccent ?s = []" ..
  from synthesize_missing_input [OF this] r t show ?thesis
    by (simp del: run.simps)
qed

subsection \<open>The index under re-recording\<close>

text \<open>
  When the prediction for a re-recorded chunk settles, with a body or with a failure, the
  \<open>finally\<close> block clears \<open>chunkBeingRecorded\<close> and \<open>isRecording\<close>.
\<close>

lemma settled_rerecord_clears_index:
  "chunkBeingRecorded (snd (onstop_chunk_resume index r s)) = None"
  "\<not> isRecording (snd (onstop_chunk_resume index r s))"
  by (simp_all add: onstop_chunk_resume_def case_prod_unfold Let_def)

text \<open>
  C8: the claim asks that \<open>chunkBeingRecorded\<close> be cleared when a re-recording ends, the
  empty blob included. The \<open>onstop\<close> closure returns on an empty blob before its
  \<open>try ... finally\<close>: after the re-recording below nothing is being recorded or loaded, and
  \<open>chunkBeingRecorded\<close> still holds index 0.
\<close>

theorem empty_rerecord_keeps_index:
  "chunkBeingRecorded (snd (run empty_rerecord init_store)) = Some 0
   \<and> \<not> isRecording (snd (run empty_rerecord init_store))
   \<and> \<not> isLoading (snd (run empty_rerecord init_store))
   \<and> fst (run empty_rerecord init_store)
       = [FetchPredict ''RIFF'', GetUserMedia, RecorderStart (ChunkRecorder 0),
          RecorderStop (ChunkRecorder 0), ConsoleError ''Recorded audio blob is empty.'']"
  by (simp add: empty_rerecord_def example_defs handler_defs)

subsection \<open>The text that is synthesized\<close>

text \<open>The merge writes neither \<open>rawText\<close> nor the accent; a full upload sets \<open>rawText\<close>.\<close>

lemma chunk_merge_keeps_rawText:
  "rawText (snd (onstop_chunk_resume index r s)) = rawText s"
  "selectedAccent (snd (onstop_chunk_resume index r s)) = selectedAccent s"
  by (cases r; simp add: onstop_chunk_resume_def merge_chunk_def release_stream_def
      split: option.splits chunk_seq.splits)+

lemma full_upload_rawText:
  assumes "chunks data = Array (map Some cs)"
  shows "rawText (snd (handleFileUpload_resume (Body data) s)) = join_space (map c_text cs)"
    and "rawText (snd (onstop_full_resume (Body data) s)) = join_space (map c_text cs)"
    and "selectedAccent (snd (handleFileUpload_resume (Body data) s)) = selectedAccent s"
    and "selectedAccent (snd (onstop_full_resume (Body data) s)) = selectedAccent s"
  using assms
  by (simp_all add: handleFileUpload_resume_def onstop_full_resume_def store_prediction_def
      chunk_texts_def texts_of_map_Some release_stream_def split: option.splits)

text \<open>
  C9: after a full upload (of a file, or of a capture) whose response has the chunks
  \<open>cs\<close>, and then a re-recording of a chunk with response \<open>data'\<close>, a request for
  synthesis sends the texts of \<open>cs\<close> joined by spaces: the re-recorded text is not in it.
\<close>

theorem synthesis_ignores_rerecorded_text:
  assumes "chunks data = Array (map Some cs)"
    and "join_space (map c_text cs) \<noteq> []" and "selectedAccent s \<noteq> []"
  shows "fst (handleSynthesize (snd (onstop_chunk_resume index (Body data')
               (snd (handleFileUpload_resume (Body data) s)))))
           = [FetchSynthesize (join_space (map c_text cs)) (selectedAccent s)]
         \<and> fst (handleSynthesize (snd (onstop_chunk_resume index (Body data')
               (snd (onstop_full_resume (Body data) s)))))
           = [FetchSynthesize (join_space (map c_text cs)) (selectedAccent s)]"
  using assms
  by (simp add: handleSynthesize_def chunk_merge_keeps_rawText full_upload_rawText)

text \<open>The store shows "hi", "there again"; the text sent is "hi there".\<close>

theorem synthesis_ignores_rerecorded_text_witness:
  "transcriptionData (snd (onstop_chunk_resume 1 (Body (data_of [chunk_there_again]))
       (snd (handleFileUpload_resume (Body (data_of [chunk_hi, chunk_there])) init_store))))
     = Array [Some chunk_hi, Some chunk_there_again]
   \<and> fst (handleSynthesize (snd (onstop_chunk_resume 1 (Body (data_of [chunk_there_again]))
       (snd (handleFileUpload_resume (Body (data_of [chunk_hi, chunk_there])) init_store)))))
     = [FetchSynthesize ''hi there'' ''british'']"
proof -
  have c: "chunks (data_of [chunk_hi, chunk_there]) = Array (map Some [chunk_hi, chunk_there])"
    by (simp add: data_of_def)
  have t: "join_space (map c_text [chunk_hi, chunk_there]) = ''hi there''"
    by (simp add: chunk_hi_def chunk_there_def)
  have a: "selectedAccent init_store = ''british''" by (simp add: init_store_def)
  have s: "transcriptionData (snd (onstop_chunk_resume 1 (Body (data_of [chunk_there_again]))
       (snd (handleFileUpload_resume (Body (data_of [chunk_hi, chunk_there])) init_store))))
     = Array [Some chunk_hi, Some chunk_there_again]"
    by (simp add: init_store_def data_of_def handler_defs)
  from synthesis_ignores_rerecorded_text [OF c, of init_store 1 "data_of [chunk_there_again]"]
    t a s
  show ?thesis by simp
qed

subsection \<open>The number of chunks in a merged response\<close>

text \<open>
  C10, as stated, fails. The claim: for every response without chunks the merge keeps the
  length of the sequence. In the session below the store was replaced by a one-chunk
  transcript while index 1 was being re-recorded; the response has no chunk, and the
  merge makes the store two elements long.
\<close>

theorem empty_response_grows_counterexample:
  "transcriptionData (snd (run (stale_start @ stale_between) init_store))
     = Array [Some chunk_x]
   \<and> transcriptionData (snd (run (stale_start @ stale_between @ empty_merge) init_store))
     = Array [Some chunk_x, None]"
  by (simp add: stale_start_def stale_between_def empty_merge_def example_defs handler_defs)

text \<open>What an assignment at an index does to a JavaScript array.\<close>

lemma js_set_nth: "js_set xs i v ! i = v"
  by (simp add: js_set_def nth_append)

lemma js_set_length: "length (js_set xs i v) = max (length xs) (i + 1)"
  by (simp add: js_set_def)

lemma js_set_other: "j < length xs \<Longrightarrow> j \<noteq> i \<Longrightarrow> js_set xs i v ! j = xs ! j"
  by (simp add: js_set_def nth_append)

text \<open>The merge between two arrays.\<close>

lemma merge_chunk_arrays:
  assumes "transcriptionData s = Array xs" and "chunks data = Array cs"
  shows "transcriptionData (snd (onstop_chunk_resume index (Body data) s))
           = Array (js_set xs index (js_first cs))"
    and "errorMessage (snd (onstop_chunk_resume index (Body data) s)) = errorMessage s"
  using assms
  by (simp_all add: onstop_chunk_resume_def merge_chunk_def release_stream_def
      split: option.splits)

text \<open>
  C10, amended: the merge writes element 0 of the chunks of the response at the index of
  the re-recording and does not look at their number. With several chunks the first one
  is written and the others are dropped; with none, \<open>undefined\<close> is written. No error is
  recorded in either case. The other elements of the store stay; its length stays when
  the index is within the store at merge time, and becomes the index plus one when the
  index is past its end.
\<close>

theorem merge_writes_first_unchecked:
  assumes "transcriptionData s = Array xs" and "chunks data = Array cs"
  shows "\<exists>ys. transcriptionData (snd (onstop_chunk_resume index (Body data) s)) = Array ys
           \<and> ys ! index = (case cs of [] \<Rightarrow> None | c # rest \<Rightarrow> c)
           \<and> length ys = max (length xs) (index + 1)
           \<and> (\<forall>j < length xs. j \<noteq> index \<longrightarrow> ys ! j = xs ! j)
           \<and> errorMessage (snd (onstop_chunk_resume index (Body data) s)) = errorMessage s"
proof -
  let ?ys = "js_set xs index (js_first cs)"
  have "js_first cs = (case cs of [] \<Rightarrow> None | c # rest \<Rightarrow> c)"
    by (simp add: js_first_def)
  then have "?ys ! index = (case cs of [] \<Rightarrow> None | c # rest \<Rightarrow> c)"
    by (simp add: js_set_nth)
  moreover have "length ?ys = max (length xs) (index + 1)"
    by (rule js_set_length)
  moreover have "\<forall>j < length xs. j \<noteq> index \<longrightarrow> ?ys ! j = xs ! j"
    by (simp add: js_set_other)
  moreover note merge_chunk_arrays [OF assms, of index]
  ultimately show ?thesis by (intro exI [of _ ?ys] conjI)
qed

text \<open>
  No chunk and an index past the end; two chunks; no chunk and an index within the store.
\<close>

theorem merge_writes_first_unchecked_witness:
  "transcriptionData (snd (onstop_chunk_resume 1 (Body (data_of []))
        (snd (run (stale_start @ stale_between) init_store))))
     = Array [Some chunk_x, None]
   \<and> transcriptionData (snd (onstop_chunk_resume 0 (Body (data_of [chunk_there_again, chunk_x]))
        (snd (run (upload_of [chunk_hi, chunk_there]) init_store))))
     = Array [Some chunk_there_again, Some chunk_there]
   \<and> transcriptionData (snd (onstop_chunk_resume 0 (Body (data_of []))
        (snd (run (upload_of [chunk_hi, chunk_there]) init_store))))
     = Array [None, Some chunk_there]"
proof -
  let ?s = "snd (run (stale_start @ stale_between) init_store)"
  let ?t = "snd (run (upload_of [chunk_hi, chunk_there]) init_store)"
  have s: "transcriptionData ?s = Array [Some chunk_x]"
    by (simp add: stale_start_def stale_between_def example_defs handler_defs)
  have t: "transcriptionData ?t = Array [Some chunk_hi, Some chunk_there]"
    by (simp add: example_defs handler_defs)
  have d0: "chunks (data_of []) = Array []"
    and d2: "chunks (data_of [chunk_there_again, chunk_x])
               = Array [Some chunk_there_again, Some chunk_x]"
    by (simp_all add: data_of_def)
  have two: "ys = [a, b]" if "length ys = 2" "ys ! 0 = a" "ys ! 1 = b" for ys :: "'a list" and a b
    using that by (auto simp: length_Suc_conv numeral_2_eq_2)
  from merge_writes_first_unchecked [OF s d0, of 1]
  obtain ys where ys: "transcriptionData (snd (onstop_chunk_resume 1 (Body (data_of [])) ?s))
        = Array ys" and y1: "ys ! 1 = None" and yl: "length ys = max (length [Some chunk_x]) (1 + 1)"
      and yo: "\<forall>j<length [Some chunk_x]. j \<noteq> 1 \<longrightarrow> ys ! j = [Some chunk_x] ! j"
    by (elim exE conjE) simp
  from yl have "length ys = 2" by simp
  moreover from yo have "ys ! 0 = Some chunk_x" by simp
  ultimately have "ys = [Some chunk_x, None]" using y1 by (rule two)
  with ys have 1: "transcriptionData (snd (onstop_chunk_resume 1 (Body (data_of [])) ?s))
             = Array [Some chunk_x, None]" by simp
  from merge_writes_first_unchecked [OF t d2, of 0]
  obtain zs where zs: "transcriptionData (snd (onstop_chunk_resume 0
        (Body (data_of [chunk_there_again, chunk_x])) ?t)) = Array zs"
      and z0: "zs ! 0 = Some chunk_there_again"
      and zl: "length zs = max (length [Some chunk_hi, Some chunk_there]) (0 + 1)"
      and zo: "\<forall>j<length [Some chunk_hi, Some chunk_there]. j \<noteq> 0 \<longrightarrow>
                 zs ! j = [Some chunk_hi, Some chunk_there] ! j"
    by (elim exE conjE) simp
  from zl have "length zs = 2" by simp
  moreover note z0
  moreover from zo [rule_format, of 1] have "zs ! 1 = Some chunk_there" by simp
  ultimately have "zs = [Some chunk_there_again, Some chunk_there]" by (rule two)
  with zs have 2: "transcriptionData (snd (onstop_chunk_resume 0
        (Body (data_of [chunk_there_again, chunk_x])) ?t))
             = Array [Some chunk_there_again, Some chunk_there]" by simp
  from merge_writes_first_unchecked [OF t d0, of 0]
  obtain ws where ws: "transcriptionData (snd (onstop_chunk_resume 0 (Body (data_of [])) ?t))
        = Array ws" and w0: "ws ! 0 = None"
      and wl: "length ws = max (length [Some chunk_hi, Some chunk_there]) (0 + 1)"
      and wo: "\<forall>j<length [Some chunk_hi, Some chunk_there]. j \<noteq> 0 \<longrightarrow>
                 ws ! j = [Some chunk_hi, Some chunk_there] ! j"
    by (elim exE conjE) simp
  from wl have "length ws = 2" by simp
  moreover note w0
  moreover from wo [rule_format, of 1] have "ws ! 1 = Some chunk_there" by simp
  ultimately have "ws = [None, Some chunk_there]" by (rule two)
  with ws have 3: "transcriptionData (snd (onstop_chunk_resume 0 (Body (data_of [])) ?t))
             = Array [None, Some chunk_there]" by simp
  from 1 2 3 show ?thesis by (intro conjI)
qed

end
